theory Spec2Isabelle
  imports Main "HOL-Library.Word" "HOL-Library.Sublist"
begin

unbundle bit_operations_syntax

section \<open>Bytes, machine integers and the store\<close>

text \<open>
  Go's \<open>[]byte\<close> is a list of 8-bit words; a slice that may be \<open>nil\<close> (the value
  \<open>db.Get\<close> returns for a missing key, the field \<open>lastHash\<close> before any block) is a
  \<open>bytes option\<close> with \<open>None\<close> for \<open>nil\<close>.  \<open>int64\<close> is a 64-bit word read with
  \<open>sint\<close>; comparisons on it are the signed ones.
\<close>

type_synonym bytes = "8 word list"
type_synonym int64 = "64 word"

text \<open>\<open>[]byte("...")\<close> of an ASCII string literal.\<close>

definition bytes_of :: "string \<Rightarrow> bytes" where
  "bytes_of s = map of_char s"

text \<open>\<open>int64(len(tx))\<close>.\<close>

definition len64 :: "bytes \<Rightarrow> int64" where
  "len64 tx = word_of_nat (length tx)"

text \<open>
  \<open>binary.BigEndian.PutUint64(b, v)\<close>: \<open>b[0] = byte(v >> 56)\<close>, ..., \<open>b[7] = byte(v)\<close>.
\<close>

definition PutUint64 :: "64 word \<Rightarrow> bytes" where
  "PutUint64 v =
     [ucast (drop_bit 56 v), ucast (drop_bit 48 v), ucast (drop_bit 40 v),
      ucast (drop_bit 32 v), ucast (drop_bit 24 v), ucast (drop_bit 16 v),
      ucast (drop_bit 8 v), ucast v]"

text \<open>
  The errors the handlers can pass on.  The first two are the argument checks of the
  store's \<open>Batch.Set\<close> (cometbft-db refuses an empty key and a \<open>nil\<close> value); the third
  stands for a failed synchronous write of the storage engine.
\<close>

datatype error = errKeyEmpty | errValueNil | errWriteFailed

text \<open>
  The durable store \<open>dbm.DB\<close>: the persisted entries, and whether the storage engine
  refuses synchronous writes (the only way \<open>WriteSync\<close> on an open batch fails).
  A batch is the list of its staged \<open>Set\<close> operations, applied in order and all at once
  by \<open>WriteSync\<close>.  \<open>Commit\<close> closes its batch only on return (\<open>defer b.Close()\<close>), so
  every \<open>Set\<close> and \<open>WriteSync\<close> of the program sees an open batch.
\<close>

record DB =
  entries :: "bytes \<rightharpoonup> bytes"
  write_fault :: bool

type_synonym Batch = "(bytes \<times> bytes) list"

definition Get :: "DB \<Rightarrow> bytes \<Rightarrow> bytes option" where
  "Get db key = entries db key"

definition NewBatch :: "DB \<Rightarrow> Batch" where
  "NewBatch db = []"

definition Batch_Set :: "Batch \<Rightarrow> bytes \<Rightarrow> bytes option \<Rightarrow> error + Batch" where
  "Batch_Set b key val =
     (if key = [] then Inl errKeyEmpty
      else case val of
             None \<Rightarrow> Inl errValueNil
           | Some v \<Rightarrow> Inr (b @ [(key, v)]))"

fun apply_ops :: "Batch \<Rightarrow> (bytes \<rightharpoonup> bytes) \<Rightarrow> (bytes \<rightharpoonup> bytes)" where
  "apply_ops [] m = m"
| "apply_ops ((k, v) # ops) m = apply_ops ops (m(k \<mapsto> v))"

definition WriteSync :: "DB \<Rightarrow> Batch \<Rightarrow> error + DB" where
  "WriteSync db b =
     (if write_fault db then Inl errWriteFailed
      else Inr (db\<lparr>entries := apply_ops b (entries db)\<rparr>))"

section \<open>SHA-256 (crypto/sha256)\<close>

text \<open>
  The constants of FIPS 180-4 are the first 32 bits of the fractional parts of the cube
  roots (round constants) and square roots (initial state) of the first primes.
  \<open>iroot k n\<close> is the integer part of the \<open>k\<close>-th root of \<open>n\<close>, for
  \<open>0 \<le> n < 2 ^ (35 * k)\<close>, found bit by bit from the top.
\<close>

fun iroot_bits :: "nat \<Rightarrow> int \<Rightarrow> nat \<Rightarrow> int \<Rightarrow> int" where
  "iroot_bits k n 0 r = r"
| "iroot_bits k n (Suc b) r =
     iroot_bits k n b (if (r + 2 ^ b) ^ k \<le> n then r + 2 ^ b else r)"

definition iroot :: "nat \<Rightarrow> int \<Rightarrow> int" where
  "iroot k n = iroot_bits k n 35 0"

definition primes_below :: "nat \<Rightarrow> nat list" where
  "primes_below n = filter (\<lambda>p. filter (\<lambda>d. p mod d = 0) [2..<p] = []) [2..<n]"

definition sha256_K :: "32 word list" where
  "sha256_K = map (\<lambda>p. word_of_int (iroot 3 (int p * 2 ^ 96))) (primes_below 312)"

definition sha256_init :: "32 word list" where
  "sha256_init = map (\<lambda>p. word_of_int (iroot 2 (int p * 2 ^ 64))) (primes_below 20)"

definition Ch :: "32 word \<Rightarrow> 32 word \<Rightarrow> 32 word \<Rightarrow> 32 word" where
  "Ch x y z = (x AND y) XOR (NOT x AND z)"

definition Maj :: "32 word \<Rightarrow> 32 word \<Rightarrow> 32 word \<Rightarrow> 32 word" where
  "Maj x y z = (x AND y) XOR (x AND z) XOR (y AND z)"

definition bsig0 :: "32 word \<Rightarrow> 32 word" where
  "bsig0 x = word_rotr 2 x XOR word_rotr 13 x XOR word_rotr 22 x"

definition bsig1 :: "32 word \<Rightarrow> 32 word" where
  "bsig1 x = word_rotr 6 x XOR word_rotr 11 x XOR word_rotr 25 x"

definition ssig0 :: "32 word \<Rightarrow> 32 word" where
  "ssig0 x = word_rotr 7 x XOR word_rotr 18 x XOR drop_bit 3 x"

definition ssig1 :: "32 word \<Rightarrow> 32 word" where
  "ssig1 x = word_rotr 17 x XOR word_rotr 19 x XOR drop_bit 10 x"

text \<open>Padding: the bit 1, zero bytes up to 56 modulo 64, the bit length on 8 bytes.\<close>

definition sha256_pad :: "bytes \<Rightarrow> bytes" where
  "sha256_pad msg =
     msg @ [0x80] @ replicate ((119 - length msg mod 64) mod 64) 0
         @ PutUint64 (word_of_nat (8 * length msg))"

fun be32_words :: "bytes \<Rightarrow> 32 word list" where
  "be32_words (a # b # c # d # rest) =
     (push_bit 24 (ucast a) OR push_bit 16 (ucast b) OR push_bit 8 (ucast c) OR ucast d)
       # be32_words rest"
| "be32_words _ = []"

fun sha256_schedule :: "nat \<Rightarrow> 32 word list \<Rightarrow> 32 word list" where
  "sha256_schedule 0 w = w"
| "sha256_schedule (Suc n) w =
     (let t = length w in
      sha256_schedule n
        (w @ [ssig1 (w ! (t - 2)) + w ! (t - 7) + ssig0 (w ! (t - 15)) + w ! (t - 16)]))"

fun sha256_round :: "32 word \<times> 32 word \<Rightarrow> 32 word list \<Rightarrow> 32 word list" where
  "sha256_round (k, w) [a, b, c, d, e, f, g, h] =
     (let t1 = h + bsig1 e + Ch e f g + k + w;
          t2 = bsig0 a + Maj a b c
      in [t1 + t2, a, b, c, d + t1, e, f, g])"
| "sha256_round _ s = s"

definition sha256_block :: "32 word list \<Rightarrow> 32 word list \<Rightarrow> 32 word list" where
  "sha256_block s w16 =
     map2 (+) s (fold sha256_round (zip sha256_K (sha256_schedule 48 w16)) s)"

function sha256_blocks :: "32 word list \<Rightarrow> 32 word list \<Rightarrow> 32 word list" where
  "sha256_blocks s ws =
     (if length ws < 16 then s
      else sha256_blocks (sha256_block s (take 16 ws)) (drop 16 ws))"
  by pat_completeness auto
termination
  by (relation "measure (\<lambda>(s, ws). length ws)") auto

definition be32_bytes :: "32 word \<Rightarrow> bytes" where
  "be32_bytes w = [ucast (drop_bit 24 w), ucast (drop_bit 16 w), ucast (drop_bit 8 w), ucast w]"

definition sha256 :: "bytes \<Rightarrow> bytes" where
  "sha256 msg = concat (map be32_bytes (sha256_blocks sha256_init (be32_words (sha256_pad msg))))"

text \<open>
  Evaluated on the test message \<open>bytes_of ''abc''\<close> of the standard, \<open>sha256\<close> gives
  its published digest \<open>ba7816bf 8f01cfea 414140de 5dae2223 b00361a3 96177a9c b410ff61
  f20015ad\<close>.
\<close>

text \<open>
  \<open>hash.Hash\<close>: the state is what has been written so far; \<open>Write\<close> appends and
  \<open>Sum(nil)\<close> is the digest of everything written.
\<close>

type_synonym Hash = bytes

definition sha256_New :: Hash where
  "sha256_New = []"

definition Hash_Write :: "Hash \<Rightarrow> bytes \<Rightarrow> Hash" where
  "Hash_Write h p = h @ p"

definition Hash_Sum :: "Hash \<Rightarrow> bytes" where
  "Hash_Sum h = sha256 h"

section \<open>Requests and responses (the fields the handlers read and set)\<close>

record CheckTxRequest =
  ct_Tx :: bytes

record CheckTxResponse =
  ctr_Code :: "32 word"
  ctr_Data :: "bytes option"
  ctr_Log :: string

record PrepareProposalRequest =
  pp_MaxTxBytes :: int64
  pp_Txs :: "bytes list"

record PrepareProposalResponse =
  ppr_Txs :: "bytes list"

text \<open>\<open>ProcessProposalRequest\<close> carries the proposed list and the height, and no byte budget.\<close>

record ProcessProposalRequest =
  pr_Txs :: "bytes list"
  pr_Height :: int64

datatype ProcessProposalStatus =
  PROCESS_PROPOSAL_STATUS_ACCEPT | PROCESS_PROPOSAL_STATUS_REJECT

record ProcessProposalResponse =
  prr_Status :: ProcessProposalStatus

record FinalizeBlockRequest =
  fb_Txs :: "bytes list"
  fb_Height :: int64

record ExecTxResult =
  etr_Code :: "32 word"
  etr_Data :: "bytes option"
  etr_Log :: string
  etr_Info :: string
  etr_GasWanted :: int64
  etr_GasUsed :: int64

text \<open>
  \<open>TxResults\<close> is a slice of pointers: an entry is \<open>None\<close> until the loop has stored a
  result there.  \<open>Events\<close>, \<open>ValidatorUpdates\<close> and \<open>ConsensusParamUpdates\<close> are always
  returned empty and are left out.
\<close>

record FinalizeBlockResponse =
  fbr_AppHash :: "bytes option"
  fbr_TxResults :: "ExecTxResult option list"

record InfoResponse =
  ir_Data :: string
  ir_Version :: string
  ir_AppVersion :: "64 word"
  ir_LastBlockHeight :: int64
  ir_LastBlockAppHash :: "bytes option"

record QueryRequest =
  q_Path :: string
  q_Data :: bytes

record QueryResponse =
  qr_Code :: "32 word"
  qr_Value :: "bytes option"
  qr_Log :: string

section \<open>package app: the hooks\<close>

definition ProcessTX :: "CheckTxRequest \<Rightarrow> error + CheckTxResponse" where
  "ProcessTX req = Inr \<lparr>ctr_Code = 0, ctr_Data = None, ctr_Log = []\<rparr>"

definition CommitData :: "unit \<Rightarrow> error + unit" where
  "CommitData req = Inr ()"

definition QueryData :: "QueryRequest \<Rightarrow> error + QueryResponse" where
  "QueryData req = Inr \<lparr>qr_Code = 0, qr_Value = None, qr_Log = []\<rparr>"

section \<open>package comet: the application\<close>

record CometApp =
  db :: DB
  lastHash :: "bytes option"
  lastHeight :: int64

definition key_lastAppHash :: bytes where
  "key_lastAppHash = bytes_of ''lastAppHash''"

definition key_lastHeight :: bytes where
  "key_lastHeight = bytes_of ''lastHeight''"

text \<open>
  \<open>GetLastBlockHashAndHeight\<close>: both errors of \<open>Get\<close> are dropped; the height is the
  first stored byte, zero-extended, or 0 when the value is missing or empty.
\<close>

definition GetLastBlockHashAndHeight :: "DB \<Rightarrow> bytes option \<times> int64" where
  "GetLastBlockHashAndHeight d =
     (let lastHash = Get d key_lastAppHash;
          heightBytes = Get d key_lastHeight;
          height = (case heightBytes of
                      None \<Rightarrow> 0
                    | Some [] \<Rightarrow> 0
                    | Some (b0 # _) \<Rightarrow> ucast b0)
      in (lastHash, height))"

definition NewCometApp :: "DB \<Rightarrow> CometApp" where
  "NewCometApp d =
     (let (lastBlockHash, height) = GetLastBlockHashAndHeight d
      in \<lparr>db = d, lastHash = lastBlockHash, lastHeight = height\<rparr>)"

definition InitChain :: "CometApp \<Rightarrow> error + unit" where
  "InitChain cometApp = Inr ()"

definition CheckTx :: "CometApp \<Rightarrow> CheckTxRequest \<Rightarrow> error + CheckTxResponse" where
  "CheckTx cometApp req =
     (case ProcessTX req of
        Inl err \<Rightarrow> Inl err
      | Inr _ \<Rightarrow> Inr \<lparr>ctr_Code = 0, ctr_Data = None, ctr_Log = []\<rparr>)"

text \<open>
  The loop of \<open>PrepareProposal\<close>: \<open>sz\<close> and \<open>out\<close> are the loop variables, the first
  argument is what is left of \<open>req.Txs\<close>; \<open>break\<close> returns \<open>out\<close> as it is.
\<close>

fun PrepareProposal_loop :: "bytes list \<Rightarrow> int64 \<Rightarrow> int64 \<Rightarrow> bytes list \<Rightarrow> bytes list" where
  "PrepareProposal_loop [] maxTxBytes sz out = out"
| "PrepareProposal_loop (tx # txs) maxTxBytes sz out =
     (if maxTxBytes <s sz + len64 tx then out
      else PrepareProposal_loop txs maxTxBytes (sz + len64 tx) (out @ [tx]))"

definition PrepareProposal ::
  "CometApp \<Rightarrow> PrepareProposalRequest \<Rightarrow> error + PrepareProposalResponse" where
  "PrepareProposal cometApp req =
     Inr \<lparr>ppr_Txs = PrepareProposal_loop (pp_Txs req) (pp_MaxTxBytes req) 0 []\<rparr>"

fun ProcessProposal_size :: "bytes list \<Rightarrow> int64 \<Rightarrow> int64" where
  "ProcessProposal_size [] sz = sz"
| "ProcessProposal_size (tx # txs) sz = ProcessProposal_size txs (sz + len64 tx)"

definition ProcessProposal ::
  "CometApp \<Rightarrow> ProcessProposalRequest \<Rightarrow> error + ProcessProposalResponse" where
  "ProcessProposal cometApp req =
     (let sz = ProcessProposal_size (pr_Txs req) 0;
          maxTxsBytes = (1000000 :: int64)
      in if 0 <s maxTxsBytes \<and> maxTxsBytes <s sz
         then Inr \<lparr>prr_Status = PROCESS_PROPOSAL_STATUS_REJECT\<rparr>
         else Inr \<lparr>prr_Status = PROCESS_PROPOSAL_STATUS_ACCEPT\<rparr>)"

text \<open>
  \<open>Commit\<close> changes nothing of the application but the store behind \<open>db\<close>; the result is
  the response or the error, and the application afterwards.
\<close>

definition Commit :: "CometApp \<Rightarrow> (error + unit) \<times> CometApp" where
  "Commit cometApp =
     (case CommitData () of
        Inl err \<Rightarrow> (Inl err, cometApp)
      | Inr _ \<Rightarrow>
          (let b = NewBatch (db cometApp) in
           case Batch_Set b key_lastAppHash (lastHash cometApp) of
             Inl err \<Rightarrow> (Inl err, cometApp)
           | Inr b1 \<Rightarrow>
               (case Batch_Set b1 key_lastHeight (Some [ucast (lastHeight cometApp)]) of
                  Inl err \<Rightarrow> (Inl err, cometApp)
                | Inr b2 \<Rightarrow>
                    (case WriteSync (db cometApp) b2 of
                       Inl err \<Rightarrow> (Inl err, cometApp)
                     | Inr db' \<Rightarrow> (Inr (), cometApp\<lparr>db := db'\<rparr>)))))"

text \<open>The digest of \<open>FinalizeBlock\<close>: the height on 8 bytes, then every transaction.\<close>

definition FinalizeBlock_hash :: "int64 \<Rightarrow> bytes list \<Rightarrow> bytes" where
  "FinalizeBlock_hash height txs =
     (let h = sha256_New;
          h = Hash_Write h (PutUint64 height);
          h = fold (\<lambda>tx h. Hash_Write h tx) txs h
      in Hash_Sum h)"

text \<open>The second loop: \<open>results[i] = &abci.ExecTxResult{...}\<close> for the index \<open>i\<close> of each transaction.\<close>

fun FinalizeBlock_results ::
  "nat \<Rightarrow> bytes list \<Rightarrow> ExecTxResult option list \<Rightarrow> ExecTxResult option list" where
  "FinalizeBlock_results i [] results = results"
| "FinalizeBlock_results i (tx # txs) results =
     FinalizeBlock_results (Suc i) txs
       (results[i := Some \<lparr>etr_Code = 0, etr_Data = None, etr_Log = [], etr_Info = [],
                           etr_GasWanted = 0, etr_GasUsed = 0\<rparr>])"

definition FinalizeBlock ::
  "CometApp \<Rightarrow> FinalizeBlockRequest \<Rightarrow> (error + FinalizeBlockResponse) \<times> CometApp" where
  "FinalizeBlock cometApp req =
     (let app1 = cometApp\<lparr>lastHeight := fb_Height req\<rparr>;
          app2 = app1\<lparr>lastHash := Some (FinalizeBlock_hash (fb_Height req) (fb_Txs req))\<rparr>;
          results = replicate (length (fb_Txs req)) None;
          results = FinalizeBlock_results 0 (fb_Txs req) results
      in (Inr \<lparr>fbr_AppHash = lastHash app2, fbr_TxResults = results\<rparr>, app2))"

definition ExtendVote :: "CometApp \<Rightarrow> error + unit" where
  "ExtendVote cometApp = Inr ()"

definition VerifyVoteExtension :: "CometApp \<Rightarrow> error + unit" where
  "VerifyVoteExtension cometApp = Inr ()"

definition Info :: "CometApp \<Rightarrow> error + InfoResponse" where
  "Info cometApp =
     Inr \<lparr>ir_Data = ''mycometApp'', ir_Version = ''v0.1.0'', ir_AppVersion = 1,
          ir_LastBlockHeight = lastHeight cometApp,
          ir_LastBlockAppHash = lastHash cometApp\<rparr>"

definition Query :: "CometApp \<Rightarrow> QueryRequest \<Rightarrow> error + QueryResponse" where
  "Query cometApp req =
     (case QueryData req of
        Inl err \<Rightarrow> Inl err
      | Inr _ \<Rightarrow> Inr \<lparr>qr_Code = 0, qr_Value = None, qr_Log = []\<rparr>)"

definition ListSnapshots :: "CometApp \<Rightarrow> error + unit" where
  "ListSnapshots cometApp = Inr ()"

definition OfferSnapshot :: "CometApp \<Rightarrow> error + unit" where
  "OfferSnapshot cometApp = Inr ()"

definition LoadSnapshotChunk :: "CometApp \<Rightarrow> error + unit" where
  "LoadSnapshotChunk cometApp = Inr ()"

definition ApplySnapshotChunk :: "CometApp \<Rightarrow> error + unit" where
  "ApplySnapshotChunk cometApp = Inr ()"

section \<open>Sequences of handler invocations\<close>

datatype Request =
    ReqInitChain
  | ReqCheckTx CheckTxRequest
  | ReqPrepareProposal PrepareProposalRequest
  | ReqProcessProposal ProcessProposalRequest
  | ReqFinalizeBlock FinalizeBlockRequest
  | ReqCommit
  | ReqExtendVote
  | ReqVerifyVoteExtension
  | ReqInfo
  | ReqQuery QueryRequest
  | ReqListSnapshots
  | ReqOfferSnapshot
  | ReqLoadSnapshotChunk
  | ReqApplySnapshotChunk

text \<open>The application after one handler has run; only two handlers change it.\<close>

fun handle :: "CometApp \<Rightarrow> Request \<Rightarrow> CometApp" where
  "handle cometApp (ReqFinalizeBlock req) = snd (FinalizeBlock cometApp req)"
| "handle cometApp ReqCommit = snd (Commit cometApp)"
| "handle cometApp _ = cometApp"

definition run :: "CometApp \<Rightarrow> Request list \<Rightarrow> CometApp" where
  "run cometApp reqs = foldl handle cometApp reqs"

section \<open>Auxiliary facts\<close>

subsection \<open>Sizes as signed 64-bit integers\<close>

lemma sint_len64: "length tx < 2 ^ 63 \<Longrightarrow> sint (len64 tx) = int (length tx)"
proof -
  assume a: "length tx < 2 ^ 63"
  have "sint (word_of_nat (length tx) :: 64 word) = signed_take_bit (LENGTH(64) - Suc 0) (int (length tx))"
    using signed_of_nat [where ?'a = int and ?'b = 64, of "length tx"] by simp
  also have "\<dots> = int (length tx)"
  proof (rule signed_take_bit_int_eq_self)
    show "- (2 ^ (LENGTH(64) - Suc 0)) \<le> int (length tx)" by simp
    have "int (length tx) < 2 ^ 63" using a by (simp only: of_nat_less_numeral_power_cancel_iff)
    then show "int (length tx) < 2 ^ (LENGTH(64) - Suc 0)" by simp
  qed
  finally show ?thesis by (simp add: len64_def)
qed

lemma sint_add_len64:
  assumes "sint sz = int s" and "s + length tx < 2 ^ 63"
  shows "sint (sz + len64 tx) = int (s + length tx)"
proof -
  have l: "sint (len64 tx) = int (length tx)"
    using assms(2) by (intro sint_len64) simp
  have "sint (sz + len64 tx) = signed_take_bit (LENGTH(64) - 1) (sint sz + sint (len64 tx))"
    by (rule sint_word_add)
  also have "\<dots> = int s + int (length tx)"
    unfolding assms(1) l
  proof (rule signed_take_bit_int_eq_self)
    show "- (2 ^ (LENGTH(64) - 1)) \<le> int s + int (length tx)" by simp
    have "int (s + length tx) < 2 ^ 63" using assms(2) by (simp only: of_nat_less_numeral_power_cancel_iff)
    then show "int s + int (length tx) < 2 ^ (LENGTH(64) - 1)" by simp
  qed
  finally show ?thesis by simp
qed
lemma ProcessProposal_size_sint:
  "sint sz = int s \<Longrightarrow> s + sum_list (map length txs) < 2 ^ 63 \<Longrightarrow>
   sint (ProcessProposal_size txs sz) = int (s + sum_list (map length txs))"
proof (induction txs arbitrary: sz s)
  case Nil
  then show ?case by simp
next
  case (Cons tx txs)
  have "s + length tx < 2 ^ 63"
    using Cons.prems(2) by simp
  then have step: "sint (sz + len64 tx) = int (s + length tx)"
    by (rule sint_add_len64 [OF Cons.prems(1)])
  have b: "(s + length tx) + sum_list (map length txs) < 2 ^ 63"
    using Cons.prems(2) by (simp add: add.assoc)
  have "sint (ProcessProposal_size txs (sz + len64 tx)) = int ((s + length tx) + sum_list (map length txs))"
    by (rule Cons.IH [OF step b])
  then show ?case by (simp add: add.assoc)
qed

lemma PrepareProposal_loop_prefix:
  "\<exists>taken. PrepareProposal_loop txs B sz out = out @ taken \<and> prefix taken txs"
proof (induction txs arbitrary: sz out)
  case Nil
  then show ?case by simp
next
  case (Cons tx txs)
  show ?case
  proof (cases "B <s sz + len64 tx")
    case True
    then have "PrepareProposal_loop (tx # txs) B sz out = out @ []" by simp
    moreover have "prefix [] (tx # txs)" by simp
    ultimately show ?thesis by (intro exI [of _ "[]"] conjI)
  next
    case False
    from Cons.IH [of "sz + len64 tx" "out @ [tx]"] obtain taken where
      t: "PrepareProposal_loop txs B (sz + len64 tx) (out @ [tx]) = (out @ [tx]) @ taken"
         "prefix taken txs"
      by (elim exE conjE)
    have "PrepareProposal_loop (tx # txs) B sz out = out @ (tx # taken)"
      using False t(1) by simp
    moreover have "prefix (tx # taken) (tx # txs)" using t(2) by simp
    ultimately show ?thesis by (intro exI [of _ "tx # taken"] conjI)
  qed
qed

lemma PrepareProposal_loop_inv:
  "sint sz = int (sum_list (map length out)) \<Longrightarrow>
   sum_list (map length out) + sum_list (map length txs) < 2 ^ 63 \<Longrightarrow>
   sint sz \<le> sint B \<Longrightarrow>
   \<exists>taken. PrepareProposal_loop txs B sz out = out @ taken \<and> prefix taken txs
        \<and> int (sum_list (map length (out @ taken))) \<le> sint B"
proof (induction txs arbitrary: sz out)
  case Nil
  then show ?case by simp
next
  case (Cons tx txs)
  have "sum_list (map length out) + length tx < 2 ^ 63"
    using Cons.prems(2) by simp
  then have step: "sint (sz + len64 tx) = int (sum_list (map length out) + length tx)"
    by (rule sint_add_len64 [OF Cons.prems(1)])
  show ?case
  proof (cases "B <s sz + len64 tx")
    case True
    then have "PrepareProposal_loop (tx # txs) B sz out = out @ []" by simp
    moreover have "prefix [] (tx # txs)" by simp
    moreover have "int (sum_list (map length (out @ []))) \<le> sint B"
      using Cons.prems by simp
    ultimately show ?thesis by (intro exI [of _ "[]"] conjI)
  next
    case False
    then have fits: "sint (sz + len64 tx) \<le> sint B"
      by (simp add: word_sless_alt)
    have s': "sint (sz + len64 tx) = int (sum_list (map length (out @ [tx])))"
      using step by simp
    have bound: "sum_list (map length (out @ [tx])) + sum_list (map length txs) < 2 ^ 63"
      using Cons.prems(2) by (simp add: add.assoc)
    from Cons.IH [OF s' bound fits] obtain taken where
      t: "PrepareProposal_loop txs B (sz + len64 tx) (out @ [tx]) = (out @ [tx]) @ taken"
         "prefix taken txs"
         "int (sum_list (map length ((out @ [tx]) @ taken))) \<le> sint B"
      by (elim exE conjE)
    have "PrepareProposal_loop (tx # txs) B sz out = out @ (tx # taken)"
      using False t(1) by simp
    moreover have "prefix (tx # taken) (tx # txs)" using t(2) by simp
    moreover have "int (sum_list (map length (out @ (tx # taken)))) \<le> sint B"
      using t(3) by simp
    ultimately show ?thesis by (intro exI [of _ "tx # taken"] conjI)
  qed
qed

subsection \<open>The two loops of \<open>FinalizeBlock\<close>\<close>

lemma Hash_Write_fold: "fold (\<lambda>tx h. Hash_Write h tx) txs h = h @ concat txs"
  by (induction txs arbitrary: h) (simp_all add: Hash_Write_def)

lemma FinalizeBlock_hash_eq:
  "FinalizeBlock_hash height txs = sha256 (PutUint64 height @ concat txs)"
  unfolding FinalizeBlock_hash_def Let_def Hash_Write_fold
  by (simp add: Hash_Write_def Hash_Sum_def sha256_New_def)

lemma FinalizeBlock_results_fill:
  "length rs = i + length txs \<Longrightarrow>
   FinalizeBlock_results i txs rs =
     take i rs @ replicate (length txs)
       (Some \<lparr>etr_Code = 0, etr_Data = None, etr_Log = [], etr_Info = [],
              etr_GasWanted = 0, etr_GasUsed = 0\<rparr>)"
proof (induction txs arbitrary: i rs)
  case Nil
  then show ?case by simp
next
  case (Cons tx txs)
  have len: "length (rs[i := Some \<lparr>etr_Code = 0, etr_Data = None, etr_Log = [], etr_Info = [],
              etr_GasWanted = 0, etr_GasUsed = 0\<rparr>]) = Suc i + length txs"
    using Cons.prems by simp
  have i: "i < length rs" using Cons.prems by simp
  show ?case
    using Cons.IH [OF len] i
    by (simp add: take_Suc_conv_app_nth replicate_append_same)
qed

subsection \<open>The store, \<open>Commit\<close> and the handlers' effect on the application\<close>

lemma reserved_keys_distinct: "key_lastAppHash \<noteq> key_lastHeight"
  by (simp add: key_lastAppHash_def key_lastHeight_def bytes_of_def)

lemma reserved_keys_nonempty: "key_lastAppHash \<noteq> []" "key_lastHeight \<noteq> []"
  by (simp_all add: key_lastAppHash_def key_lastHeight_def bytes_of_def)

lemma Commit_eq:
  "Commit a =
     (case lastHash a of
        None \<Rightarrow> (Inl errValueNil, a)
      | Some h \<Rightarrow>
          if write_fault (db a) then (Inl errWriteFailed, a)
          else (Inr (), a\<lparr>db := (db a)\<lparr>entries :=
                  (entries (db a))(key_lastAppHash \<mapsto> h,
                                   key_lastHeight \<mapsto> [ucast (lastHeight a)])\<rparr>\<rparr>))"
  by (simp add: Commit_def CommitData_def NewBatch_def Batch_Set_def WriteSync_def
        reserved_keys_nonempty split: option.splits)

lemma FinalizeBlock_snd:
  "snd (FinalizeBlock a req) =
     a\<lparr>lastHeight := fb_Height req,
       lastHash := Some (FinalizeBlock_hash (fb_Height req) (fb_Txs req))\<rparr>"
  by (simp add: FinalizeBlock_def Let_def)

lemma Commit_frame:
  "k \<noteq> key_lastAppHash \<Longrightarrow> k \<noteq> key_lastHeight \<Longrightarrow>
   entries (db (snd (Commit a))) k = entries (db a) k"
  by (simp add: Commit_eq split: option.splits)

lemma handle_frame:
  "k \<noteq> key_lastAppHash \<Longrightarrow> k \<noteq> key_lastHeight \<Longrightarrow>
   entries (db (handle a r)) k = entries (db a) k"
  by (cases r) (simp_all add: Commit_frame FinalizeBlock_snd)

lemma run_frame:
  "k \<noteq> key_lastAppHash \<Longrightarrow> k \<noteq> key_lastHeight \<Longrightarrow>
   entries (db (foldl handle a reqs)) k = entries (db a) k"
  by (induction reqs arbitrary: a) (simp_all add: handle_frame)

text \<open>
  What a restart reports after \<open>FinalizeBlock\<close> and a successful \<open>Commit\<close>: the digest of
  the block, and the low byte of its height.
\<close>

lemma Handshake_after_Commit_low_byte:
  "\<not> write_fault (db cometApp) \<Longrightarrow>
   fst (Commit (snd (FinalizeBlock cometApp req))) = Inr ()
   \<and> Info (NewCometApp (db (snd (Commit (snd (FinalizeBlock cometApp req))))))
      = Inr \<lparr>ir_Data = ''mycometApp'', ir_Version = ''v0.1.0'', ir_AppVersion = 1,
             ir_LastBlockHeight = ucast (ucast (fb_Height req) :: 8 word),
             ir_LastBlockAppHash = Some (FinalizeBlock_hash (fb_Height req) (fb_Txs req))\<rparr>"
  by (simp add: Commit_eq FinalizeBlock_snd NewCometApp_def GetLastBlockHashAndHeight_def Get_def
        Let_def reserved_keys_distinct Info_def)

section \<open>The claims\<close>

text \<open>
  C9.  The admission check accepts every transaction: for any application state and any
  request, \<open>CheckTx\<close> returns a response (never an error) whose code is 0.
\<close>

theorem CheckTx_always_accepts:
  "CheckTx cometApp req = Inr \<lparr>ctr_Code = 0, ctr_Data = None, ctr_Log = []\<rparr>"
  by (simp add: CheckTx_def ProcessTX_def)

text \<open>
  C6.  \<open>FinalizeBlock\<close> returns a response whose result list has one entry per input
  transaction, in the order of the transactions: the entry at the index of each
  transaction is the (non-nil) result stored for it.
\<close>

theorem FinalizeBlock_one_result_per_tx:
  "\<exists>resp. fst (FinalizeBlock cometApp req) = Inr resp
      \<and> length (fbr_TxResults resp) = length (fb_Txs req)
      \<and> fbr_TxResults resp =
          map (\<lambda>tx. Some \<lparr>etr_Code = 0, etr_Data = None, etr_Log = [], etr_Info = [],
                           etr_GasWanted = 0, etr_GasUsed = 0\<rparr>) (fb_Txs req)"
  by (simp add: FinalizeBlock_def Let_def FinalizeBlock_results_fill map_replicate_const)

text \<open>
  C8.  The AppHash computed by \<open>FinalizeBlock\<close> is a function of the request alone: two
  invocations on the same height and transaction list, from any two application states
  (any store, any cached hash and height), return the same digest, namely the SHA-256 of
  the height on 8 bytes followed by the transactions in their order.
\<close>

theorem FinalizeBlock_AppHash_deterministic:
  "\<exists>resp1 resp2.
      fst (FinalizeBlock app1 req) = Inr resp1 \<and> fst (FinalizeBlock app2 req) = Inr resp2
    \<and> fbr_AppHash resp1 = fbr_AppHash resp2
    \<and> fbr_AppHash resp1 = Some (sha256 (PutUint64 (fb_Height req) @ concat (fb_Txs req)))"
  by (simp add: FinalizeBlock_def Let_def FinalizeBlock_hash_eq)

text \<open>
  C7.  \<open>PrepareProposal\<close> returns a prefix of the candidates, in their order; for a
  byte budget \<open>B \<ge> 0\<close> and a candidate list whose total size fits an \<open>int64\<close> (as
  every list in memory does), the total size of what it returns is at most \<open>B\<close>.
\<close>

theorem PrepareProposal_prefix_within_budget:
  "\<exists>resp. PrepareProposal cometApp req = Inr resp
      \<and> prefix (ppr_Txs resp) (pp_Txs req)
      \<and> (0 \<le>s pp_MaxTxBytes req \<and> sum_list (map length (pp_Txs req)) < 2 ^ 63
           \<longrightarrow> int (sum_list (map length (ppr_Txs resp))) \<le> sint (pp_MaxTxBytes req))"
proof -
  let ?out = "PrepareProposal_loop (pp_Txs req) (pp_MaxTxBytes req) 0 []"
  have p: "prefix ?out (pp_Txs req)"
    using PrepareProposal_loop_prefix [of "pp_Txs req" "pp_MaxTxBytes req" 0 "[]"] by auto
  have b: "int (sum_list (map length ?out)) \<le> sint (pp_MaxTxBytes req)"
    if nonneg: "0 \<le>s pp_MaxTxBytes req" and fits: "sum_list (map length (pp_Txs req)) < 2 ^ 63"
  proof -
    have le: "sint (0 :: int64) \<le> sint (pp_MaxTxBytes req)"
      using nonneg by (simp add: word_sle_eq)
    have s0: "sint (0 :: int64) = int (sum_list (map length ([] :: bytes list)))"
      by simp
    have bound: "sum_list (map length ([] :: bytes list)) + sum_list (map length (pp_Txs req)) < 2 ^ 63"
      using fits by simp
    from PrepareProposal_loop_inv [OF s0 bound le] obtain taken where
      t: "?out = [] @ taken"
         "int (sum_list (map length ([] @ taken))) \<le> sint (pp_MaxTxBytes req)"
      by (elim exE conjE)
    then show ?thesis by simp
  qed
  show ?thesis
    using p b by (simp add: PrepareProposal_def)
qed

text \<open>
  The scenario of C7: three candidates of 300 bytes each and a budget of 500 bytes; only
  the first candidate is returned.
\<close>

theorem PrepareProposal_prefix_within_budget_witness:
  "0 \<le>s (500 :: int64)
   \<and> sum_list (map length [replicate 300 (0 :: 8 word), replicate 300 1, replicate 300 2]) < 2 ^ 63
   \<and> PrepareProposal (NewCometApp \<lparr>entries = Map.empty, write_fault = False\<rparr>)
        \<lparr>pp_MaxTxBytes = 500, pp_Txs = [replicate 300 0, replicate 300 1, replicate 300 2]\<rparr>
      = Inr \<lparr>ppr_Txs = [replicate 300 0]\<rparr>
   \<and> prefix [replicate 300 (0 :: 8 word)] [replicate 300 0, replicate 300 1, replicate 300 2]
   \<and> int (sum_list (map length [replicate 300 (0 :: 8 word)])) \<le> sint (500 :: int64)"
  using PrepareProposal_prefix_within_budget
    [of "NewCometApp \<lparr>entries = Map.empty, write_fault = False\<rparr>"
        "\<lparr>pp_MaxTxBytes = 500, pp_Txs = [replicate 300 0, replicate 300 1, replicate 300 2]\<rparr>"]
  by (simp add: PrepareProposal_def len64_def word_sless_alt word_sle_eq)

text \<open>
  C1, as stated, fails: \<open>ProcessProposal\<close> reads no budget from its request.  A list of
  three transactions of 300 bytes (900 bytes in all, above a budget of 500) is accepted.
\<close>

theorem ProcessProposal_budget_counterexample:
  "(500 :: int) < int (sum_list (map length [replicate 300 (0 :: 8 word), replicate 300 1, replicate 300 2]))
   \<and> ProcessProposal (NewCometApp \<lparr>entries = Map.empty, write_fault = False\<rparr>)
        \<lparr>pr_Txs = [replicate 300 0, replicate 300 1, replicate 300 2], pr_Height = 1\<rparr>
      = Inr \<lparr>prr_Status = PROCESS_PROPOSAL_STATUS_ACCEPT\<rparr>"
  by (simp add: ProcessProposal_def len64_def word_sless_alt)

text \<open>
  C1, amended.  \<open>ProcessProposal\<close> re-derives the total size of the proposed list (a
  total that fits an \<open>int64\<close>) and rejects exactly when it exceeds the fixed limit of
  1000000 bytes; otherwise it accepts.
\<close>

theorem ProcessProposal_fixed_budget:
  assumes "sum_list (map length (pr_Txs req)) < 2 ^ 63"
  shows "ProcessProposal cometApp req =
           Inr \<lparr>prr_Status = (if 1000000 < sum_list (map length (pr_Txs req))
                               then PROCESS_PROPOSAL_STATUS_REJECT
                               else PROCESS_PROPOSAL_STATUS_ACCEPT)\<rparr>"
proof -
  have s0: "sint (0 :: int64) = int 0" by simp
  have bound: "0 + sum_list (map length (pr_Txs req)) < 2 ^ 63"
    using assms by simp
  have "sint (ProcessProposal_size (pr_Txs req) 0) = int (0 + sum_list (map length (pr_Txs req)))"
    by (rule ProcessProposal_size_sint [OF s0 bound])
  then show ?thesis
    by (simp add: ProcessProposal_def Let_def word_sless_alt)
qed

theorem ProcessProposal_fixed_budget_witness:
  "sum_list (map length [replicate 1000001 (0 :: 8 word)]) < 2 ^ 63
   \<and> ProcessProposal (NewCometApp \<lparr>entries = Map.empty, write_fault = False\<rparr>)
        \<lparr>pr_Txs = [replicate 1000001 0], pr_Height = 1\<rparr>
      = Inr \<lparr>prr_Status = PROCESS_PROPOSAL_STATUS_REJECT\<rparr>"
  using ProcessProposal_fixed_budget
    [of "\<lparr>pr_Txs = [replicate 1000001 0], pr_Height = 1\<rparr>"
        "NewCometApp \<lparr>entries = Map.empty, write_fault = False\<rparr>"]
  by simp

text \<open>
  C2, as stated, fails: \<open>Commit\<close> has no check that a block was executed.  An application
  started on a store committed at height 5, with no \<open>FinalizeBlock\<close> invoked since,
  answers \<open>Commit\<close> with success.
\<close>

theorem Commit_without_execution_counterexample:
  "fst (Commit (NewCometApp
          \<lparr>entries = [key_lastAppHash \<mapsto> [0xAB], key_lastHeight \<mapsto> [5]], write_fault = False\<rparr>))
     = Inr ()"
  by (simp add: Commit_eq NewCometApp_def GetLastBlockHashAndHeight_def Get_def Let_def
        reserved_keys_distinct)

text \<open>
  C2, amended.  \<open>Commit\<close> succeeds exactly when the cached \<open>lastHash\<close> is non-nil and the
  store accepts the synchronous write, whether or not a block was executed before; when
  it returns an error (the nil-value error of the store on an application that has no
  hash yet, or a failed write) the application and its durable store are unchanged.
\<close>

theorem Commit_succeeds_iff:
  "(fst (Commit cometApp) = Inr ()) = (lastHash cometApp \<noteq> None \<and> \<not> write_fault (db cometApp))
   \<and> (fst (Commit cometApp) \<noteq> Inr () \<longrightarrow> snd (Commit cometApp) = cometApp)"
  by (simp add: Commit_eq split: option.splits)

theorem Commit_succeeds_iff_witness:
  "lastHash (NewCometApp \<lparr>entries = [key_lastAppHash \<mapsto> [0xAB], key_lastHeight \<mapsto> [5]], write_fault = False\<rparr>) \<noteq> None
   \<and> \<not> write_fault (db (NewCometApp \<lparr>entries = [key_lastAppHash \<mapsto> [0xAB], key_lastHeight \<mapsto> [5]], write_fault = False\<rparr>))
   \<and> fst (Commit (NewCometApp \<lparr>entries = [key_lastAppHash \<mapsto> [0xAB], key_lastHeight \<mapsto> [5]], write_fault = False\<rparr>)) = Inr ()
   \<and> fst (Commit (NewCometApp \<lparr>entries = Map.empty, write_fault = False\<rparr>)) \<noteq> Inr ()
   \<and> snd (Commit (NewCometApp \<lparr>entries = Map.empty, write_fault = False\<rparr>))
       = NewCometApp \<lparr>entries = Map.empty, write_fault = False\<rparr>"
  using Commit_succeeds_iff
    [of "NewCometApp \<lparr>entries = [key_lastAppHash \<mapsto> [0xAB], key_lastHeight \<mapsto> [5]], write_fault = False\<rparr>"]
    Commit_succeeds_iff [of "NewCometApp \<lparr>entries = Map.empty, write_fault = False\<rparr>"]
  by (simp add: NewCometApp_def GetLastBlockHashAndHeight_def Get_def Let_def reserved_keys_distinct)

text \<open>
  C3 at a failing input: after \<open>FinalizeBlock\<close> at height 1 on an empty store, \<open>Commit\<close>
  succeeds and the entry \<open>lastHeight\<close> holds the single byte 1, not the 8 bytes
  \<open>PutUint64 1\<close>; the entry \<open>lastAppHash\<close> holds the digest of the block.
\<close>

theorem Commit_height_encoding_failure:
  "fst (Commit (snd (FinalizeBlock (NewCometApp \<lparr>entries = Map.empty, write_fault = False\<rparr>)
                       \<lparr>fb_Txs = [], fb_Height = 1\<rparr>))) = Inr ()
   \<and> Get (db (snd (Commit (snd (FinalizeBlock (NewCometApp \<lparr>entries = Map.empty, write_fault = False\<rparr>)
                       \<lparr>fb_Txs = [], fb_Height = 1\<rparr>))))) key_lastHeight = Some [1]
   \<and> PutUint64 1 = [0, 0, 0, 0, 0, 0, 0, 1]
   \<and> Get (db (snd (Commit (snd (FinalizeBlock (NewCometApp \<lparr>entries = Map.empty, write_fault = False\<rparr>)
                       \<lparr>fb_Txs = [], fb_Height = 1\<rparr>))))) key_lastAppHash
        = Some (FinalizeBlock_hash 1 [])"
  by (simp add: Commit_eq FinalizeBlock_snd NewCometApp_def GetLastBlockHashAndHeight_def Get_def
        Let_def reserved_keys_distinct PutUint64_def)

text \<open>
  C4 at a failing input: after \<open>FinalizeBlock\<close> at height 256 on an empty store and a
  successful \<open>Commit\<close>, the application started again on the resulting store reports the
  digest of the block and the height 0, not 256.
\<close>

theorem Handshake_after_Commit_256:
  "fst (Commit (snd (FinalizeBlock (NewCometApp \<lparr>entries = Map.empty, write_fault = False\<rparr>)
                       \<lparr>fb_Txs = [], fb_Height = 256\<rparr>))) = Inr ()
   \<and> Info (NewCometApp (db (snd (Commit (snd (FinalizeBlock
              (NewCometApp \<lparr>entries = Map.empty, write_fault = False\<rparr>)
              \<lparr>fb_Txs = [], fb_Height = 256\<rparr>))))))
      = Inr \<lparr>ir_Data = ''mycometApp'', ir_Version = ''v0.1.0'', ir_AppVersion = 1,
             ir_LastBlockHeight = 0,
             ir_LastBlockAppHash = Some (FinalizeBlock_hash 256 [])\<rparr>"
  by (simp add: Commit_eq FinalizeBlock_snd NewCometApp_def GetLastBlockHashAndHeight_def Get_def
        Let_def reserved_keys_distinct Info_def)

text \<open>
  C5, as stated, fails: on an empty store (committed height 0, no hash), after
  \<open>FinalizeBlock\<close> at height 1 and before any \<open>Commit\<close>, \<open>Info\<close> reports height 1 and the
  new digest, while the store still holds nothing.
\<close>

theorem Info_before_Commit_counterexample:
  "Info (snd (FinalizeBlock (NewCometApp \<lparr>entries = Map.empty, write_fault = False\<rparr>)
                \<lparr>fb_Txs = [], fb_Height = 1\<rparr>))
     = Inr \<lparr>ir_Data = ''mycometApp'', ir_Version = ''v0.1.0'', ir_AppVersion = 1,
            ir_LastBlockHeight = 1,
            ir_LastBlockAppHash = Some (FinalizeBlock_hash 1 [])\<rparr>
   \<and> GetLastBlockHashAndHeight
        (db (snd (FinalizeBlock (NewCometApp \<lparr>entries = Map.empty, write_fault = False\<rparr>)
                \<lparr>fb_Txs = [], fb_Height = 1\<rparr>)))
     = (None, 0)"
  by (simp add: FinalizeBlock_snd NewCometApp_def GetLastBlockHashAndHeight_def Get_def
        Let_def Info_def)

text \<open>
  C5, amended.  \<open>Info\<close> reports the cached pair of the application.  Directly after the
  start it is the pair \<open>GetLastBlockHashAndHeight\<close> read from the store; after
  \<open>FinalizeBlock\<close> it is the height of the request and the digest just computed, though
  \<open>FinalizeBlock\<close> leaves the store as it was; \<open>Commit\<close> does not change what is reported.
\<close>

theorem Info_reports_cached_pair:
  "Info (NewCometApp d)
     = Inr \<lparr>ir_Data = ''mycometApp'', ir_Version = ''v0.1.0'', ir_AppVersion = 1,
            ir_LastBlockHeight = snd (GetLastBlockHashAndHeight d),
            ir_LastBlockAppHash = fst (GetLastBlockHashAndHeight d)\<rparr>
   \<and> Info (snd (FinalizeBlock cometApp req))
     = Inr \<lparr>ir_Data = ''mycometApp'', ir_Version = ''v0.1.0'', ir_AppVersion = 1,
            ir_LastBlockHeight = fb_Height req,
            ir_LastBlockAppHash = Some (FinalizeBlock_hash (fb_Height req) (fb_Txs req))\<rparr>
   \<and> db (snd (FinalizeBlock cometApp req)) = db cometApp
   \<and> Info (snd (Commit cometApp)) = Info cometApp"
  by (simp add: FinalizeBlock_snd NewCometApp_def Info_def Commit_eq split: option.splits prod.splits)

text \<open>
  C10.  Over every sequence of handler invocations, every key of the store other than
  \<open>lastAppHash\<close> and \<open>lastHeight\<close> keeps its entry (or stays absent), and block execution
  writes nothing to the store.
\<close>

theorem only_reserved_keys_written:
  assumes "k \<noteq> key_lastAppHash" and "k \<noteq> key_lastHeight"
  shows "entries (db (run cometApp reqs)) k = entries (db cometApp) k
       \<and> db (snd (FinalizeBlock cometApp req)) = db cometApp"
  using assms by (simp add: run_def run_frame FinalizeBlock_snd)

theorem only_reserved_keys_written_witness:
  "bytes_of ''balance'' \<noteq> key_lastAppHash \<and> bytes_of ''balance'' \<noteq> key_lastHeight
   \<and> entries (db (run (NewCometApp \<lparr>entries = [bytes_of ''balance'' \<mapsto> [7]], write_fault = False\<rparr>)
                     [ReqCheckTx \<lparr>ct_Tx = [1]\<rparr>, ReqFinalizeBlock \<lparr>fb_Txs = [[1]], fb_Height = 1\<rparr>, ReqCommit]))
        (bytes_of ''balance'') = Some [7]"
  using only_reserved_keys_written
    [of "bytes_of ''balance''"
        "NewCometApp \<lparr>entries = [bytes_of ''balance'' \<mapsto> [7]], write_fault = False\<rparr>"
        "[ReqCheckTx \<lparr>ct_Tx = [1]\<rparr>, ReqFinalizeBlock \<lparr>fb_Txs = [[1]], fb_Height = 1\<rparr>, ReqCommit]"]
  by (simp add: key_lastAppHash_def key_lastHeight_def bytes_of_def NewCometApp_def
        GetLastBlockHashAndHeight_def Get_def Let_def)

end
